theory Spec2Isabelle
  imports Complex_Main
begin

section \<open>Values\<close>

text \<open>
  A value obtained from \<^verbatim>\<open>JSON.parse\<close> (the request body that \<^verbatim>\<open>express.json()\<close>
  parsed, the upstream body that \<^verbatim>\<open>response.json()\<close> parsed). A number is the double
  that the parser produced: a finite one is read as the real number it denotes (\<open>JNum\<close>),
  and a literal beyond the range of the doubles, such as \<^verbatim>\<open>1e400\<close>, is parsed as
  \<^verbatim>\<open>Infinity\<close> or \<^verbatim>\<open>-Infinity\<close> (\<open>JInfinity\<close>). The handlers never compute with a
  number, they only test it for truthiness and copy it. An object is the list of its own
  properties. A string is a list of code units, here the 8-bit \<^typ>\<open>char\<close>.
\<close>

datatype sign = Positive | Negative

datatype json =
    JNull
  | JBool bool
  | JNum real
  | JInfinity sign
  | JStr string
  | JArr "json list"
  | JObj "(string \<times> json) list"

text \<open>
  JavaScript's ToBoolean on such a value: \<^verbatim>\<open>null\<close>, \<^verbatim>\<open>false\<close>, \<^verbatim>\<open>0\<close> and
  \<^verbatim>\<open>""\<close> are falsy, every array and object is truthy, and so are the two infinities.
\<close>

fun truthy :: "json \<Rightarrow> bool" where
  "truthy JNull = False"
| "truthy (JBool b) = b"
| "truthy (JNum x) = (x \<noteq> 0)"
| "truthy (JInfinity s) = True"
| "truthy (JStr s) = (s \<noteq> [])"
| "truthy (JArr xs) = True"
| "truthy (JObj kvs) = True"

text \<open>
  A destructured field of \<^verbatim>\<open>req.body\<close> is \<^verbatim>\<open>undefined\<close> (\<open>None\<close>) when the key
  is absent, and \<^verbatim>\<open>undefined\<close> is falsy.
\<close>

fun truthy_opt :: "json option \<Rightarrow> bool" where
  "truthy_opt None = False"
| "truthy_opt (Some v) = truthy v"

text \<open>\<^verbatim>\<open>x || d\<close> on a possibly undefined value \<open>x\<close>.\<close>

definition or_default :: "json option \<Rightarrow> json \<Rightarrow> json" where
  "or_default x d = (case x of None \<Rightarrow> d | Some v \<Rightarrow> if truthy v then v else d)"

text \<open>\<^verbatim>\<open>...(x && { x })\<close>: the key is spread into the object only for a truthy \<open>x\<close>.\<close>

definition spread_if_truthy :: "json option \<Rightarrow> json option" where
  "spread_if_truthy x = (case x of None \<Rightarrow> None | Some v \<Rightarrow> if truthy v then Some v else None)"

subsection \<open>\<^verbatim>\<open>JSON.stringify\<close>\<close>

text \<open>
  The value that the text \<^verbatim>\<open>JSON.stringify(v)\<close> denotes, for a value \<open>v\<close> that came from
  \<^verbatim>\<open>JSON.parse\<close> or was built from strings and finite numbers: JSON has no notation for
  an infinite number, which is written as \<^verbatim>\<open>null\<close>, also inside arrays and objects;
  everything else is written as it is.
\<close>

primrec JSON_stringify :: "json \<Rightarrow> json" where
  "JSON_stringify JNull = JNull"
| "JSON_stringify (JBool b) = JBool b"
| "JSON_stringify (JNum x) = JNum x"
| "JSON_stringify (JInfinity s) = JNull"
| "JSON_stringify (JStr s) = JStr s"
| "JSON_stringify (JArr xs) = JArr (map JSON_stringify xs)"
| "JSON_stringify (JObj kvs) = JObj (map (map_prod id JSON_stringify) kvs)"


subsection \<open>\<^verbatim>\<open>String.prototype.split\<close> and \<^verbatim>\<open>includes\<close>\<close>

text \<open>
  \<^verbatim>\<open>s.split(sep)\<close> for a separator of one code unit: the pieces between the
  separators, empty pieces kept, so the result is never empty (\<^verbatim>\<open>"".split(' ')\<close> is
  \<^verbatim>\<open>[""]\<close>).
\<close>

fun split :: "'a \<Rightarrow> 'a list \<Rightarrow> 'a list list" where
  "split sep [] = [[]]"
| "split sep (c # cs) =
     (if c = sep then [] # split sep cs
      else (c # hd (split sep cs)) # tl (split sep cs))"

fun starts_with :: "'a list \<Rightarrow> 'a list \<Rightarrow> bool" where
  "starts_with s [] = True"
| "starts_with [] (p # ps) = False"
| "starts_with (c # cs) (p # ps) = (c = p \<and> starts_with cs ps)"

text \<open>\<^verbatim>\<open>s.includes(p)\<close>: \<open>p\<close> occurs in \<open>s\<close> as a contiguous run.\<close>

fun includes_str :: "'a list \<Rightarrow> 'a list \<Rightarrow> bool" where
  "includes_str [] p = (p = [])"
| "includes_str (c # cs) p = (starts_with (c # cs) p \<or> includes_str cs p)"

section \<open>Process configuration\<close>

text \<open>
  What the process reads once at start: \<^verbatim>\<open>process.env.HF_TOKEN\<close> and
  \<^verbatim>\<open>process.env.HF_MODEL\<close> (each a string or undefined), and the wording the
  runtime gives to the errors it raises itself, which the source reads back through
  \<^verbatim>\<open>err.message\<close>.

  The errors of the runtime: the TypeError of a property read on \<^verbatim>\<open>undefined\<close> and the
  one of a property read on \<^verbatim>\<open>null\<close> (each with the name of the property), the
  TypeError of a call of something that is not a function, and the RangeError of a
  response status outside 100..999. The errors of \<^verbatim>\<open>fetch\<close> and of reading a body carry
  their message.
\<close>

datatype runtime_error =
    ReadPropertyOfUndefined string
  | ReadPropertyOfNull string
  | NotAFunction string
  | InvalidStatusCode nat

datatype js_error =
    FetchError string
  | BodyError string
  | RuntimeError runtime_error

record env =
  env_HF_TOKEN :: "string option"
  env_HF_MODEL :: "string option"
  engine_message :: "runtime_error \<Rightarrow> string"

definition message :: "env \<Rightarrow> js_error \<Rightarrow> string" where
  "message e err =
     (case err of
        FetchError m \<Rightarrow> m
      | BodyError m \<Rightarrow> m
      | RuntimeError t \<Rightarrow> engine_message e t)"

text \<open>\<^verbatim>\<open>!HF_TOKEN\<close> is false exactly for a non-empty string.\<close>

definition has_token :: "env \<Rightarrow> bool" where
  "has_token e = (case env_HF_TOKEN e of None \<Rightarrow> False | Some t \<Rightarrow> t \<noteq> [])"

definition HF_TOKEN :: "env \<Rightarrow> string" where
  "HF_TOKEN e = (case env_HF_TOKEN e of None \<Rightarrow> [] | Some t \<Rightarrow> t)"

text \<open>\<^verbatim>\<open>process.env.HF_MODEL || "meta-llama/Llama-3.1-8B-Instruct:fireworks-ai"\<close>\<close>

definition DEFAULT_MODEL :: "env \<Rightarrow> string" where
  "DEFAULT_MODEL e =
     (case env_HF_MODEL e of
        None \<Rightarrow> ''meta-llama/Llama-3.1-8B-Instruct:fireworks-ai''
      | Some m \<Rightarrow> if m \<noteq> [] then m else ''meta-llama/Llama-3.1-8B-Instruct:fireworks-ai'')"

section \<open>The alias table\<close>

text \<open>The own properties of the object literal \<^verbatim>\<open>AVAILABLE_MODELS\<close>, in source order.\<close>

definition AVAILABLE_MODELS :: "(string \<times> string) list" where
  "AVAILABLE_MODELS =
     [(''llama-3.1-8b'', ''meta-llama/Llama-3.1-8B-Instruct:fireworks-ai''),
      (''llama-3.1-70b'', ''meta-llama/Llama-3.1-70B-Instruct:fireworks-ai''),
      (''mixtral-8x7b'', ''mistralai/Mixtral-8x7B-Instruct-v0.1:fireworks-ai''),
      (''qwen-2.5-72b'', ''Qwen/Qwen2.5-72B-Instruct:fireworks-ai''),
      (''hermes-3'', ''NousResearch/Hermes-3-Llama-3.1-8B:fireworks-ai'')]"

text \<open>
  \<^verbatim>\<open>AVAILABLE_MODELS\<close> is a plain object literal, so its prototype is
  \<^verbatim>\<open>Object.prototype\<close> and a property read \<^verbatim>\<open>AVAILABLE_MODELS[model]\<close> that finds no
  own property continues there. These are the property names of \<^verbatim>\<open>Object.prototype\<close>
  (ECMAScript 20.1.3 and Annex B.2.2); each holds a function, except the accessor
  \<^verbatim>\<open>__proto__\<close>, which yields \<^verbatim>\<open>Object.prototype\<close> itself. All of them are truthy.
\<close>

definition Object_prototype :: "string list" where
  "Object_prototype =
     [''constructor'', ''hasOwnProperty'', ''isPrototypeOf'', ''propertyIsEnumerable'',
      ''toLocaleString'', ''toString'', ''valueOf'', ''__proto__'',
      ''__defineGetter__'', ''__defineSetter__'', ''__lookupGetter__'', ''__lookupSetter__'']"

text \<open>
  The value bound to \<^verbatim>\<open>selectedModel\<close>: a string, or the member of
  \<^verbatim>\<open>Object.prototype\<close> of the given name.
\<close>

datatype model_value =
    ModelString string
  | ModelInherited string

text \<open>
  The property read \<^verbatim>\<open>AVAILABLE_MODELS[model]\<close> for a string key: the own property,
  else the inherited one, else \<^verbatim>\<open>undefined\<close>.
\<close>

definition AVAILABLE_MODELS_get :: "string \<Rightarrow> model_value option" where
  "AVAILABLE_MODELS_get k =
     (case map_of AVAILABLE_MODELS k of
        Some v \<Rightarrow> Some (ModelString v)
      | None \<Rightarrow> if k \<in> set Object_prototype then Some (ModelInherited k) else None)"

fun truthy_model :: "model_value \<Rightarrow> bool" where
  "truthy_model (ModelString s) = (s \<noteq> [])"
| "truthy_model (ModelInherited k) = True"

text \<open>
  \<^verbatim>\<open>let selectedModel = DEFAULT_MODEL;
  if (model) { selectedModel = AVAILABLE_MODELS[model] || model; }\<close>
  The request's \<^verbatim>\<open>model\<close> is a string or absent, as the chat-completion contract has it.
\<close>

definition selectedModel :: "env \<Rightarrow> string option \<Rightarrow> model_value" where
  "selectedModel e model =
     (case model of
        None \<Rightarrow> ModelString (DEFAULT_MODEL e)
      | Some m \<Rightarrow>
          if m \<noteq> [] then
            (case AVAILABLE_MODELS_get m of
               Some v \<Rightarrow> if truthy_model v then v else ModelString m
             | None \<Rightarrow> ModelString m)
          else ModelString (DEFAULT_MODEL e))"

section \<open>Requests and the upstream call\<close>

text \<open>
  The fields that the handlers destructure from \<^verbatim>\<open>req.body\<close>; \<open>None\<close> is an absent
  key (\<^verbatim>\<open>undefined\<close>).
\<close>

record request =
  req_messages :: "json option"
  req_temperature :: "json option"
  req_max_tokens :: "json option"
  req_stream :: "json option"
  req_model :: "string option"
  req_top_p :: "json option"
  req_frequency_penalty :: "json option"
  req_presence_penalty :: "json option"

text \<open>
  The object \<^verbatim>\<open>requestBody\<close> that is serialised into the outbound call. An optional
  field is a key that the object may lack.
\<close>

record request_body =
  rb_model :: model_value
  rb_messages :: "json option"
  rb_temperature :: json
  rb_max_tokens :: json
  rb_stream :: json
  rb_top_p :: "json option"
  rb_frequency_penalty :: "json option"
  rb_presence_penalty :: "json option"

definition requestBody :: "model_value \<Rightarrow> request \<Rightarrow> request_body" where
  "requestBody selected req =
     \<lparr> rb_model = selected,
       rb_messages = req_messages req,
       rb_temperature = or_default (req_temperature req) (JNum 0.7),
       rb_max_tokens = or_default (req_max_tokens req) (JNum 1000),
       rb_stream = or_default (req_stream req) (JBool False),
       rb_top_p = spread_if_truthy (req_top_p req),
       rb_frequency_penalty = spread_if_truthy (req_frequency_penalty req),
       rb_presence_penalty = spread_if_truthy (req_presence_penalty req) \<rparr>"

record fetch_call =
  fc_url :: string
  fc_method :: string
  fc_headers :: "(string \<times> string) list"
  fc_body :: request_body

definition fetch_call_of :: "env \<Rightarrow> request_body \<Rightarrow> fetch_call" where
  "fetch_call_of e body =
     \<lparr> fc_url = ''https://router.huggingface.co/v1/chat/completions'',
       fc_method = ''POST'',
       fc_headers = [(''Authorization'', ''Bearer '' @ HF_TOKEN e),
                     (''Content-Type'', ''application/json'')],
       fc_body = body \<rparr>"

text \<open>
  What \<^verbatim>\<open>fetch\<close> resolves to: the status, the declared content type, what
  \<^verbatim>\<open>response.text()\<close> and \<^verbatim>\<open>response.json()\<close> give (each may reject), and the
  events that the stream \<^verbatim>\<open>response.body\<close> emits, in order.
\<close>

datatype stream_event =
    EvData string
  | EvEnd
  | EvError js_error

record upstream_response =
  up_status :: nat
  up_content_type :: "string option"
  up_text :: "js_error + string"
  up_json :: "js_error + json"
  up_body :: "stream_event list"

text \<open>\<^verbatim>\<open>response.ok\<close>\<close>

definition ok :: "upstream_response \<Rightarrow> bool" where
  "ok response = (200 \<le> up_status response \<and> up_status response \<le> 299)"

type_synonym network = "fetch_call \<Rightarrow> js_error + upstream_response"

section \<open>The client connection\<close>

text \<open>
  A chunk object before serialisation. The template strings of its \<^verbatim>\<open>id\<close> are kept
  structured: \<^verbatim>\<open>simulated-${Date.now()}-${i}\<close> and \<^verbatim>\<open>"error-" + Date.now()\<close>.
  \<open>delta = None\<close> is the empty object \<^verbatim>\<open>{}\<close>, \<open>finish_reason = None\<close> is
  \<^verbatim>\<open>null\<close>.
\<close>

datatype chunk_id =
    SimulatedId nat nat
  | ErrorId nat

record chunk =
  chunk_id :: chunk_id
  chunk_object :: string
  chunk_created :: nat
  chunk_model :: model_value
  choice_index :: nat
  delta :: "string option"
  finish_reason :: "string option"

text \<open>
  An argument of \<^verbatim>\<open>res.write\<close>: the record
  \<^verbatim>\<open>`data: ${JSON.stringify(chunk)}\n\n`\<close> of a chunk, or a string written as it is.
\<close>

datatype written_item =
    SseData chunk
  | Raw string

definition DONE :: written_item where
  "DONE = Raw (''data: [DONE]'' @ [CHR 0x0A, CHR 0x0A])"

text \<open>
  The response stream: what has been written, and whether \<^verbatim>\<open>res.end()\<close> was called.
  A write after the end does not reach the client (and does not throw: Node reports it
  through an error event).
\<close>

record sink =
  written :: "written_item list"
  ended :: bool

definition res_write :: "written_item \<Rightarrow> sink \<Rightarrow> sink" where
  "res_write w s = (if ended s then s else s\<lparr>written := written s @ [w]\<rparr>)"

definition res_end :: "sink \<Rightarrow> sink" where
  "res_end s = s\<lparr>ended := True\<rparr>"

definition open_sink :: sink where
  "open_sink = \<lparr> written = [], ended = False \<rparr>"

text \<open>
  What the client receives: a status with a JSON body, a status with no body, or the
  headers set with \<^verbatim>\<open>res.setHeader\<close> and the streamed writes.
\<close>

datatype client_reply =
    JsonReply nat json
  | EmptyReply nat
  | StreamReply "(string \<times> string) list" sink

text \<open>
  \<^verbatim>\<open>res.status(status).json(body)\<close>, and \<^verbatim>\<open>res.json(body)\<close> for the status 200 that a
  response has when the handler sets none. The body is written with
  \<^verbatim>\<open>JSON.stringify\<close>. Node refuses a status outside 100..999 with a RangeError, thrown
  into the handler. A response with status 204, 205 or 304 is sent without its body
  (Express drops it), and so is one with a status from 100 to 199 (Node writes no body
  for it).
\<close>

definition send_json :: "nat \<Rightarrow> json \<Rightarrow> client_reply" where
  "send_json status body =
     (if status = 204 \<or> status = 205 \<or> status = 304 \<or> status \<le> 199 then EmptyReply status
      else JsonReply status (JSON_stringify body))"

definition res_status_json :: "nat \<Rightarrow> json \<Rightarrow> js_error + client_reply" where
  "res_status_json status body =
     (if status < 100 \<or> 999 < status then Inl (RuntimeError (InvalidStatusCode status))
      else Inr (send_json status body))"

text \<open>The result of handling one request: the outbound calls made, and the reply.\<close>

record outcome =
  calls :: "fetch_call list"
  reply :: client_reply

section \<open>Simulated streaming\<close>

text \<open>
  Property reads on a parsed value that is neither \<^verbatim>\<open>null\<close> nor \<^verbatim>\<open>undefined\<close>.
  \<open>get_member k v\<close> is \<^verbatim>\<open>v.k\<close> for the names read here (\<^verbatim>\<open>choices\<close>, \<^verbatim>\<open>message\<close>,
  \<^verbatim>\<open>content\<close>), which no prototype defines: only an object can have them.
  \<open>first_element v\<close> is \<^verbatim>\<open>v[0]\<close>: the first element of an array, the first code unit
  of a string, the property \<^verbatim>\<open>"0"\<close> of an object.
\<close>

fun get_member :: "string \<Rightarrow> json \<Rightarrow> json option" where
  "get_member k (JObj kvs) = map_of kvs k"
| "get_member k v = None"

fun first_element :: "json \<Rightarrow> json option" where
  "first_element (JArr xs) = (case xs of [] \<Rightarrow> None | x # rest \<Rightarrow> Some x)"
| "first_element (JObj kvs) = map_of kvs ''0''"
| "first_element (JStr s) = (case s of [] \<Rightarrow> None | c # rest \<Rightarrow> Some (JStr [c]))"
| "first_element v = None"

text \<open>Optional chaining \<^verbatim>\<open>v?.k\<close>: \<^verbatim>\<open>undefined\<close> when \<open>v\<close> is null or undefined.\<close>

fun optional_member :: "string \<Rightarrow> json option \<Rightarrow> json option" where
  "optional_member k None = None"
| "optional_member k (Some JNull) = None"
| "optional_member k (Some v) = get_member k v"

text \<open>
  \<^verbatim>\<open>data.choices[0]?.message?.content || "Sin respuesta"\<close>. Reading \<^verbatim>\<open>choices\<close> of a
  \<^verbatim>\<open>null\<close> body throws a TypeError, and so does reading \<^verbatim>\<open>[0]\<close> of \<^verbatim>\<open>choices\<close> when
  that is \<^verbatim>\<open>undefined\<close> (the body has no such property) or \<^verbatim>\<open>null\<close>; the three
  errors differ, and so do their messages.
\<close>

definition extract_content :: "json \<Rightarrow> js_error + json" where
  "extract_content data =
     (case data of
        JNull \<Rightarrow> Inl (RuntimeError (ReadPropertyOfNull ''choices''))
      | _ \<Rightarrow>
          (case get_member ''choices'' data of
             None \<Rightarrow> Inl (RuntimeError (ReadPropertyOfUndefined ''0''))
           | Some JNull \<Rightarrow> Inl (RuntimeError (ReadPropertyOfNull ''0''))
           | Some choices \<Rightarrow>
               Inr (or_default
                      (optional_member ''content''
                         (optional_member ''message'' (first_element choices)))
                      (JStr ''Sin respuesta''))))"

text \<open>
  \<^verbatim>\<open>content.split(' ')\<close>: only a string has the method; on any other truthy value the
  call throws a TypeError.
\<close>

definition split_content :: "json \<Rightarrow> js_error + string list" where
  "split_content content =
     (case content of
        JStr s \<Rightarrow> Inr (split CHR '' '' s)
      | _ \<Rightarrow> Inl (RuntimeError (NotAFunction ''content.split'')))"

text \<open>
  The chunk built in iteration \<open>i\<close> of the loop. \<open>clock k\<close> is what the \<open>k\<close>-th
  read of \<^verbatim>\<open>Date.now()\<close> in this request returns; iteration \<open>i\<close> makes the reads
  \<open>2 * i\<close> (for the id) and \<open>2 * i + 1\<close> (for \<^verbatim>\<open>created\<close>).
\<close>

definition word_chunk :: "(nat \<Rightarrow> nat) \<Rightarrow> model_value \<Rightarrow> string list \<Rightarrow> nat \<Rightarrow> chunk" where
  "word_chunk clock selected words i =
     (let word = words ! i;
          isLast = (i = length words - 1)
      in \<lparr> chunk_id = SimulatedId (clock (2 * i)) i,
           chunk_object = ''chat.completion.chunk'',
           chunk_created = clock (2 * i + 1) div 1000,
           chunk_model = selected,
           choice_index = 0,
           delta = (if isLast then None else Some (if i = 0 then word else '' '' @ word)),
           finish_reason = (if isLast then Some ''stop'' else None) \<rparr>)"

text \<open>
  \<^verbatim>\<open>for (let i = 0; i < words.length; i++) { ... }\<close> with the state it changes:
  \<^verbatim>\<open>accumulatedContent\<close> and the response stream. The pause of 80 ms between two
  writes changes neither.
\<close>

function emit_words ::
  "(nat \<Rightarrow> nat) \<Rightarrow> model_value \<Rightarrow> string list \<Rightarrow> nat \<Rightarrow> string \<times> sink \<Rightarrow> string \<times> sink" where
  "emit_words clock selected words i (accumulatedContent, res) =
     (if i < length words then
        emit_words clock selected words (i + 1)
          (accumulatedContent @ (if i > 0 then '' '' else []) @ words ! i,
           res_write (SseData (word_chunk clock selected words i)) res)
      else (accumulatedContent, res))"
  by pat_completeness auto
termination
  by (relation "measure (\<lambda>(clock, selected, words, i, st). length words - i)") auto

text \<open>The chunk of the \<^verbatim>\<open>catch (streamError)\<close> block.\<close>

definition errorChunk :: "env \<Rightarrow> (nat \<Rightarrow> nat) \<Rightarrow> model_value \<Rightarrow> js_error \<Rightarrow> chunk" where
  "errorChunk e clock selected streamError =
     \<lparr> chunk_id = ErrorId (clock 0),
       chunk_object = ''chat.completion.chunk'',
       chunk_created = clock 1 div 1000,
       chunk_model = selected,
       choice_index = 0,
       delta = Some (''Error: '' @ message e streamError),
       finish_reason = Some ''error'' \<rparr>"

text \<open>
  The words to stream, or the fault thrown before the first write:
  \<^verbatim>\<open>response.json()\<close> rejects, or one of the two steps above throws.
\<close>

definition simulated_words :: "upstream_response \<Rightarrow> js_error + string list" where
  "simulated_words response =
     (case up_json response of
        Inl err \<Rightarrow> Inl err
      | Inr data \<Rightarrow>
          (case extract_content data of
             Inl err \<Rightarrow> Inl err
           | Inr content \<Rightarrow> split_content content))"

text \<open>
  The \<^verbatim>\<open>else\<close> branch of the streaming block together with its \<^verbatim>\<open>catch\<close>. The writes
  themselves do not throw (their arguments are strings), so a fault can only come from
  the steps before the loop, when nothing has been written yet.
\<close>

definition simulated_streaming ::
  "env \<Rightarrow> (nat \<Rightarrow> nat) \<Rightarrow> model_value \<Rightarrow> upstream_response \<Rightarrow> sink \<Rightarrow> sink" where
  "simulated_streaming e clock selected response res =
     (case simulated_words response of
        Inr words \<Rightarrow>
          res_end (res_write DONE (snd (emit_words clock selected words 0 ([], res))))
      | Inl streamError \<Rightarrow>
          res_end (res_write DONE
            (res_write (SseData (errorChunk e clock selected streamError)) res)))"

section \<open>Pass-through streaming\<close>

text \<open>
  The three listeners on \<^verbatim>\<open>response.body\<close>, run over the events in the order the
  stream emits them: \<^verbatim>\<open>data\<close> writes the chunk as it is, \<^verbatim>\<open>end\<close> and \<^verbatim>\<open>error\<close>
  both call \<^verbatim>\<open>res.end()\<close> and nothing else.
\<close>

fun relay :: "stream_event list \<Rightarrow> sink \<Rightarrow> sink" where
  "relay [] res = res"
| "relay (EvData c # events) res = relay events (res_write (Raw c) res)"
| "relay (EvEnd # events) res = relay events (res_end res)"
| "relay (EvError err # events) res = relay events (res_end res)"

definition stream_headers :: "(string \<times> string) list" where
  "stream_headers =
     [(''Content-Type'', ''text/plain; charset=utf-8''),
      (''Cache-Control'', ''no-cache''),
      (''Connection'', ''keep-alive''),
      (''Access-Control-Allow-Origin'', ''*'')]"

text \<open>\<^verbatim>\<open>response.headers.get('content-type') || ''\<close>\<close>

definition contentType :: "upstream_response \<Rightarrow> string" where
  "contentType response = (case up_content_type response of None \<Rightarrow> [] | Some c \<Rightarrow> c)"

definition is_live_stream :: "upstream_response \<Rightarrow> bool" where
  "is_live_stream response =
     (includes_str (contentType response) ''text/plain''
      \<or> includes_str (contentType response) ''text/event-stream'')"

text \<open>The block \<^verbatim>\<open>if (stream) { ... }\<close>.\<close>

definition streaming ::
  "env \<Rightarrow> (nat \<Rightarrow> nat) \<Rightarrow> model_value \<Rightarrow> upstream_response \<Rightarrow> client_reply" where
  "streaming e clock selected response =
     StreamReply stream_headers
       (if is_live_stream response then relay (up_body response) open_sink
        else simulated_streaming e clock selected response open_sink)"

section \<open>The handlers of \<^verbatim>\<open>POST /v1/chat/completions\<close>\<close>

text \<open>The bodies of the failure replies.\<close>

definition unauthorized_body :: json where
  "unauthorized_body =
     JObj [(''error'', JStr ''Token de Hugging Face no encontrado''),
           (''details'', JStr ''Configura HF_TOKEN en tu .env'')]"

definition invalid_request_body :: json where
  "invalid_request_body =
     JObj [(''error'', JStr ''Mensajes requeridos''),
           (''details'', JStr (''El campo '' @ [CHR 0x27] @ ''messages'' @ [CHR 0x27]
                               @ '' debe ser un array no vac'' @ [CHR 0xED] @ ''o''))]"

definition upstream_failure_body :: "nat \<Rightarrow> string \<Rightarrow> json" where
  "upstream_failure_body status error =
     JObj [(''error'', JStr ''Error desde Hugging Face''),
           (''details'', JStr error),
           (''status'', JNum (real status))]"

definition server_error_body :: "env \<Rightarrow> js_error \<Rightarrow> json" where
  "server_error_body e err =
     JObj [(''error'', JStr ''Error en el servidor''),
           (''details'', JStr (message e err))]"

text \<open>\<^verbatim>\<open>!messages || !Array.isArray(messages) || messages.length === 0\<close>\<close>

fun Array_isArray :: "json option \<Rightarrow> bool" where
  "Array_isArray (Some (JArr xs)) = True"
| "Array_isArray v = False"

fun array_length :: "json option \<Rightarrow> nat" where
  "array_length (Some (JArr xs)) = length xs"
| "array_length v = 0"

definition invalid_messages :: "json option \<Rightarrow> bool" where
  "invalid_messages messages =
     (\<not> truthy_opt messages \<or> \<not> Array_isArray messages \<or> array_length messages = 0)"

text \<open>
  The outer \<^verbatim>\<open>catch (err)\<close> of both handlers: whatever the \<^verbatim>\<open>try\<close> block throws (a
  rejected \<^verbatim>\<open>fetch\<close>, \<^verbatim>\<open>response.text()\<close> or \<^verbatim>\<open>response.json()\<close>, a refused status)
  becomes the reply with status 500, a status that is not refused.
\<close>

definition outer_catch :: "env \<Rightarrow> js_error + client_reply \<Rightarrow> client_reply" where
  "outer_catch e attempt =
     (case attempt of
        Inr sent \<Rightarrow> sent
      | Inl err \<Rightarrow> send_json 500 (server_error_body e err))"

text \<open>
  What follows the call of \<^verbatim>\<open>fetch\<close> in the handler of the server with the alias table:
  the upstream failure, then streaming or the plain reply.
\<close>

definition after_fetch ::
  "env \<Rightarrow> (nat \<Rightarrow> nat) \<Rightarrow> model_value \<Rightarrow> request \<Rightarrow> js_error + upstream_response
     \<Rightarrow> js_error + client_reply" where
  "after_fetch e clock selected req fetched =
     (case fetched of
        Inl err \<Rightarrow> Inl err
      | Inr response \<Rightarrow>
          if \<not> ok response then
            (case up_text response of
               Inl err \<Rightarrow> Inl err
             | Inr error \<Rightarrow>
                 res_status_json (up_status response)
                   (upstream_failure_body (up_status response) error))
          else if truthy_opt (req_stream req) then
            Inr (streaming e clock selected response)
          else
            (case up_json response of
               Inl err \<Rightarrow> Inl err
             | Inr data \<Rightarrow> res_status_json 200 data))"

text \<open>
  The handler of the server with the alias table, in the order of the source: the
  credential check, the check of \<^verbatim>\<open>messages\<close>, the model, the outbound body, the one
  call of \<^verbatim>\<open>fetch\<close> and what follows it, all inside the outer \<^verbatim>\<open>try\<close>.
\<close>

definition chat_completions :: "env \<Rightarrow> network \<Rightarrow> (nat \<Rightarrow> nat) \<Rightarrow> request \<Rightarrow> outcome" where
  "chat_completions e fetch clock req =
     (if \<not> has_token e then
        \<lparr> calls = [], reply = outer_catch e (res_status_json 401 unauthorized_body) \<rparr>
      else if invalid_messages (req_messages req) then
        \<lparr> calls = [], reply = outer_catch e (res_status_json 400 invalid_request_body) \<rparr>
      else
        (let selected = selectedModel e (req_model req);
             call = fetch_call_of e (requestBody selected req)
         in \<lparr> calls = [call],
              reply = outer_catch e (after_fetch e clock selected req (fetch call)) \<rparr>))"

text \<open>
  The handler of \<^verbatim>\<open>server.js\<close>: the credential check, the one call of \<^verbatim>\<open>fetch\<close> with
  the configured model, the upstream failure, then the plain reply.
\<close>

definition server_unauthorized_body :: json where
  "server_unauthorized_body =
     JObj [(''error'', JStr ''Token de Hugging Face no encontrado''),
           (''details'', JStr (''Aseg'' @ [CHR 0xFA] @ ''rate de que HF_TOKEN est'' @ [CHR 0xE9]
                               @ '' configurado en tu .env''))]"

definition server_requestBody :: "env \<Rightarrow> request \<Rightarrow> request_body" where
  "server_requestBody e req =
     \<lparr> rb_model = ModelString (DEFAULT_MODEL e),
       rb_messages = req_messages req,
       rb_temperature = or_default (req_temperature req) (JNum 0.7),
       rb_max_tokens = or_default (req_max_tokens req) (JNum 1000),
       rb_stream = or_default (req_stream req) (JBool False),
       rb_top_p = None,
       rb_frequency_penalty = None,
       rb_presence_penalty = None \<rparr>"

definition server_after_fetch :: "js_error + upstream_response \<Rightarrow> js_error + client_reply" where
  "server_after_fetch fetched =
     (case fetched of
        Inl err \<Rightarrow> Inl err
      | Inr response \<Rightarrow>
          if \<not> ok response then
            (case up_text response of
               Inl err \<Rightarrow> Inl err
             | Inr error \<Rightarrow>
                 res_status_json (up_status response)
                   (upstream_failure_body (up_status response) error))
          else
            (case up_json response of
               Inl err \<Rightarrow> Inl err
             | Inr data \<Rightarrow> res_status_json 200 data))"

definition server_chat_completions :: "env \<Rightarrow> network \<Rightarrow> request \<Rightarrow> outcome" where
  "server_chat_completions e fetch req =
     (if \<not> has_token e then
        \<lparr> calls = [], reply = outer_catch e (res_status_json 401 server_unauthorized_body) \<rparr>
      else
        (let call = fetch_call_of e (server_requestBody e req)
         in \<lparr> calls = [call],
              reply = outer_catch e (server_after_fetch (fetch call)) \<rparr>))"

section \<open>Reading an emitted sequence\<close>

text \<open>
  A terminal chunk is one whose \<^verbatim>\<open>finish_reason\<close> is set. The content chunks are the
  others; \<open>delta_contents\<close> lists their \<^verbatim>\<open>delta.content\<close> in emission order.
\<close>

fun is_terminal :: "written_item \<Rightarrow> bool" where
  "is_terminal (SseData c) = (finish_reason c \<noteq> None)"
| "is_terminal (Raw s) = False"

definition emitted :: "client_reply \<Rightarrow> written_item list" where
  "emitted r =
     (case r of
        StreamReply headers res \<Rightarrow> written res
      | JsonReply status body \<Rightarrow> []
      | EmptyReply status \<Rightarrow> [])"

fun delta_contents :: "written_item list \<Rightarrow> string list" where
  "delta_contents [] = []"
| "delta_contents (SseData c # ws) =
     (case (finish_reason c, delta c) of
        (None, Some d) \<Rightarrow> d # delta_contents ws
      | _ \<Rightarrow> delta_contents ws)"
| "delta_contents (Raw s # ws) = delta_contents ws"

text \<open>The \<^verbatim>\<open>delta.content\<close> of the terminal chunks, \<open>None\<close> for an empty \<^verbatim>\<open>delta\<close>.\<close>

fun terminal_deltas :: "written_item list \<Rightarrow> string option list" where
  "terminal_deltas [] = []"
| "terminal_deltas (SseData c # ws) =
     (if finish_reason c \<noteq> None then delta c # terminal_deltas ws else terminal_deltas ws)"
| "terminal_deltas (Raw s # ws) = terminal_deltas ws"

text \<open>\<^verbatim>\<open>words.join(' ')\<close>, the inverse of \<^verbatim>\<open>split(' ')\<close>.\<close>

fun join :: "'a \<Rightarrow> 'a list list \<Rightarrow> 'a list" where
  "join sep [] = []"
| "join sep [w] = w"
| "join sep (w # v # ws) = w @ sep # join sep (v # ws)"

section \<open>Concrete requests, replies and configurations\<close>

text \<open>A number in decimal notation.\<close>

function decimal :: "nat \<Rightarrow> string" where
  "decimal n =
     (if n < 10 then [char_of (48 + n)]
      else decimal (n div 10) @ [char_of (48 + n mod 10)])"
  by pat_completeness auto
termination
  by (relation "measure (\<lambda>n. n)") auto

text \<open>The wording of V8 for the TypeErrors, and of Node for the refused status.\<close>

fun v8_message :: "runtime_error \<Rightarrow> string" where
  "v8_message (ReadPropertyOfUndefined k) =
     ''Cannot read properties of undefined (reading '' @ [CHR 0x27] @ k @ [CHR 0x27] @ '')''"
| "v8_message (ReadPropertyOfNull k) =
     ''Cannot read properties of null (reading '' @ [CHR 0x27] @ k @ [CHR 0x27] @ '')''"
| "v8_message (NotAFunction f) = f @ '' is not a function''"
| "v8_message (InvalidStatusCode status) = ''Invalid status code: '' @ decimal status"

definition configured_env :: env where
  "configured_env =
     \<lparr> env_HF_TOKEN = Some ''hf_secret'', env_HF_MODEL = None, engine_message = v8_message \<rparr>"

definition unconfigured_env :: env where
  "unconfigured_env =
     \<lparr> env_HF_TOKEN = None, env_HF_MODEL = None, engine_message = v8_message \<rparr>"

definition example_clock :: "nat \<Rightarrow> nat" where
  "example_clock k = 5000 + 80 * k"

definition user_message :: "string \<Rightarrow> json" where
  "user_message c = JObj [(''role'', JStr ''user''), (''content'', JStr c)]"

definition empty_body :: request where
  "empty_body =
     \<lparr> req_messages = None, req_temperature = None, req_max_tokens = None, req_stream = None,
       req_model = None, req_top_p = None, req_frequency_penalty = None,
       req_presence_penalty = None \<rparr>"

definition hi_there :: request where
  "hi_there = empty_body\<lparr>req_messages := Some (JArr [user_message ''Hi there''])\<rparr>"

definition hi_there_stream :: request where
  "hi_there_stream = hi_there\<lparr>req_stream := Some (JBool True)\<rparr>"

definition hi_there_toString :: request where
  "hi_there_toString = hi_there\<lparr>req_model := Some ''toString''\<rparr>"

definition hi_there_sampling :: request where
  "hi_there_sampling =
     hi_there\<lparr>req_top_p := Some (JNum 0), req_frequency_penalty := Some (JNum 0.5)\<rparr>"

definition no_messages :: request where
  "no_messages = empty_body\<lparr>req_messages := Some (JArr [])\<rparr>"

definition hello_friend :: json where
  "hello_friend =
     JObj [(''choices'', JArr [JObj [(''message'', JObj [(''content'', JStr ''Hello friend'')])]])]"

definition dq :: "string \<Rightarrow> string" where
  "dq s = [CHR 0x22] @ s @ [CHR 0x22]"

definition hello_friend_text :: string where
  "hello_friend_text =
     ''{'' @ dq ''choices'' @ '':[{'' @ dq ''message'' @ '':{'' @ dq ''content'' @ '':''
       @ dq ''Hello friend'' @ ''}}]}''"

definition json_response :: "nat \<Rightarrow> string \<Rightarrow> json \<Rightarrow> upstream_response" where
  "json_response status text data =
     \<lparr> up_status = status, up_content_type = Some ''application/json'',
       up_text = Inr text, up_json = Inr data, up_body = [EvData text, EvEnd] \<rparr>"

definition rate_limited :: upstream_response where
  "rate_limited =
     \<lparr> up_status = 429, up_content_type = Some ''text/html'',
       up_text = Inr ''Too Many Requests'',
       up_json = Inl (BodyError ''Unexpected token T in JSON at position 0''),
       up_body = [EvData ''Too Many Requests'', EvEnd] \<rparr>"

definition not_modified :: upstream_response where
  "not_modified =
     \<lparr> up_status = 304, up_content_type = None,
       up_text = Inr [], up_json = Inl (BodyError ''Unexpected end of JSON input''),
       up_body = [EvEnd] \<rparr>"



definition choices_missing :: json where
  "choices_missing = JObj []"

definition choices_null :: json where
  "choices_null = JObj [(''choices'', JNull)]"

definition broken_live_stream :: upstream_response where
  "broken_live_stream =
     \<lparr> up_status = 200, up_content_type = Some ''text/event-stream; charset=utf-8'',
       up_text = Inl (BodyError ''aborted''), up_json = Inl (BodyError ''aborted''),
       up_body = [EvData ''data: {a}'', EvData ''data: {b}'', EvError (BodyError ''aborted'')] \<rparr>"

definition replying :: "upstream_response \<Rightarrow> network" where
  "replying response call = Inr response"

definition unreachable :: network where
  "unreachable call = Inl (FetchError ''getaddrinfo ENOTFOUND router.huggingface.co'')"

definition hi_there_stream_reply :: "json \<Rightarrow> client_reply" where
  "hi_there_stream_reply data =
     reply (chat_completions configured_env (replying (json_response 200 [] data)) example_clock
              hi_there_stream)"

section \<open>Properties of the building blocks\<close>

declare emit_words.simps [simp del]

lemma split_not_Nil: "split sep s \<noteq> []"
  by (induction s) auto

lemma join_Cons: "ws \<noteq> [] \<Longrightarrow> join sep (w # ws) = w @ sep # join sep ws"
  by (cases ws) simp_all

lemma join_Cons_hd: "ws \<noteq> [] \<Longrightarrow> join sep ((c # hd ws) # tl ws) = c # join sep ws"
  by (cases ws; cases "tl ws") auto

lemma join_snoc: "join sep (ws @ [w]) = (if ws = [] then w else join sep ws @ sep # w)"
  by (induction sep ws rule: join.induct) auto

lemma join_split: "join sep (split sep s) = s"
proof (induction s)
  case Nil
  show ?case by simp
next
  case (Cons c cs)
  show ?case
  proof (cases "c = sep")
    case True
    then show ?thesis using Cons by (simp add: join_Cons split_not_Nil)
  next
    case False
    then show ?thesis using Cons by (simp add: join_Cons_hd split_not_Nil)
  qed
qed

lemma emit_words_written:
  "\<not> ended res \<Longrightarrow>
   snd (emit_words clock sel words i (acc, res)) =
     res\<lparr>written := written res @ map (\<lambda>j. SseData (word_chunk clock sel words j)) [i..<length words]\<rparr>"
proof (induction clock sel words i "(acc, res)" arbitrary: acc res rule: emit_words.induct)
  case (1 clock selected words i accumulatedContent res)
  show ?case
  proof (cases "i < length words")
    case True
    have ne: "\<not> ended (res_write (SseData (word_chunk clock selected words i)) res)"
      using "1.prems" by (simp add: res_write_def)
    have "emit_words clock selected words i (accumulatedContent, res) =
          emit_words clock selected words (i + 1)
            (accumulatedContent @ (if i > 0 then '' '' else []) @ words ! i,
             res_write (SseData (word_chunk clock selected words i)) res)"
      using True by (subst emit_words.simps) simp
    then have "snd (emit_words clock selected words i (accumulatedContent, res)) =
          res_write (SseData (word_chunk clock selected words i)) res
            \<lparr>written := written (res_write (SseData (word_chunk clock selected words i)) res)
               @ map (\<lambda>j. SseData (word_chunk clock selected words j)) [i + 1..<length words]\<rparr>"
      using "1.hyps"[OF True ne] by simp
    then show ?thesis
      using True "1.prems" by (simp add: res_write_def upt_conv_Cons)
  next
    case False
    then show ?thesis by (subst emit_words.simps) simp
  qed
qed

text \<open>
  The loop writes one chunk per word, and \<^verbatim>\<open>accumulatedContent\<close> ends as the whole
  content.
\<close>

lemma emit_words_accumulated:
  "i \<le> length words \<Longrightarrow>
   fst (emit_words clock sel words i (acc, res)) =
     acc @ (if 0 < i \<and> i < length words then '' '' else []) @ join CHR '' '' (drop i words)"
proof (induction clock sel words i "(acc, res)" arbitrary: acc res rule: emit_words.induct)
  case (1 clock selected words i accumulatedContent res)
  show ?case
  proof (cases "i < length words")
    case True
    have step: "emit_words clock selected words i (accumulatedContent, res) =
          emit_words clock selected words (i + 1)
            (accumulatedContent @ (if i > 0 then '' '' else []) @ words ! i,
             res_write (SseData (word_chunk clock selected words i)) res)"
      using True by (subst emit_words.simps) simp
    have le: "i + 1 \<le> length words" using True by simp
    have ih: "fst (emit_words clock selected words (i + 1)
            (accumulatedContent @ (if i > 0 then '' '' else []) @ words ! i,
             res_write (SseData (word_chunk clock selected words i)) res)) =
          (accumulatedContent @ (if i > 0 then '' '' else []) @ words ! i)
            @ (if 0 < i + 1 \<and> i + 1 < length words then '' '' else [])
            @ join CHR '' '' (drop (i + 1) words)"
      by (rule "1.hyps"[OF True le])
    have d: "drop i words = words ! i # drop (i + 1) words"
      using True by (simp add: Cons_nth_drop_Suc)
    have j: "join CHR '' '' (drop i words) =
          words ! i @ (if i + 1 < length words then '' '' else [])
            @ join CHR '' '' (drop (i + 1) words)"
    proof (cases "i + 1 < length words")
      case True
      then have "drop (i + 1) words \<noteq> []" by simp
      then have "join CHR '' '' (drop i words) =
            words ! i @ CHR '' '' # join CHR '' '' (drop (i + 1) words)"
        by (subst d) (rule join_Cons)
      then show ?thesis using True by simp
    next
      case False
      then have "drop (i + 1) words = []" by simp
      then have "join CHR '' '' (drop i words) = words ! i" by (subst d) simp
      then show ?thesis using False by simp
    qed
    show ?thesis
      unfolding step ih j using True by simp
  next
    case False
    then show ?thesis using "1.prems" by (subst emit_words.simps) simp
  qed
qed

lemma accumulatedContent_complete:
  "fst (emit_words clock sel (split CHR '' '' s) 0 ([], res)) = s"
  by (simp add: emit_words_accumulated join_split)

lemma simulated_streaming_success:
  assumes "simulated_words response = Inr words" "words \<noteq> []"
  shows "simulated_streaming e clock sel response open_sink =
     \<lparr> written = map (\<lambda>j. SseData (word_chunk clock sel words j)) [0..<length words - 1]
                  @ [SseData (word_chunk clock sel words (length words - 1)), DONE],
       ended = True \<rparr>"
proof -
  have "[0..<length words] = [0..<length words - 1] @ [length words - 1]"
    using assms(2) by (cases words rule: rev_cases) simp_all
  then show ?thesis
    using assms(1)
    by (simp add: simulated_streaming_def emit_words_written open_sink_def res_write_def res_end_def)
qed

lemma simulated_streaming_fault:
  assumes "simulated_words response = Inl err"
  shows "simulated_streaming e clock sel response open_sink =
     \<lparr> written = [SseData (errorChunk e clock sel err), DONE], ended = True \<rparr>"
  using assms by (simp add: simulated_streaming_def open_sink_def res_write_def res_end_def)

lemma simulated_words_not_Nil: "simulated_words response = Inr words \<Longrightarrow> words \<noteq> []"
  by (auto simp: simulated_words_def split_content_def split_not_Nil split: sum.splits json.splits)

lemma word_chunk_not_last:
  "j < length words - 1 \<Longrightarrow> finish_reason (word_chunk clock sel words j) = None"
  by (simp add: word_chunk_def Let_def)

lemma word_chunk_last:
  "finish_reason (word_chunk clock sel words (length words - 1)) = Some ''stop''
   \<and> delta (word_chunk clock sel words (length words - 1)) = None"
  by (simp add: word_chunk_def Let_def)

lemma filter_terminal_prefix:
  "filter is_terminal (map (\<lambda>j. SseData (word_chunk clock sel words j)) [0..<length words - 1]) = []"
  by (simp add: filter_empty_conv word_chunk_not_last)

lemma delta_contents_append: "delta_contents (xs @ ys) = delta_contents xs @ delta_contents ys"
  by (induction xs rule: delta_contents.induct) (auto split: option.splits)

lemma delta_contents_prefix:
  "n \<le> length words - 1 \<Longrightarrow>
   concat (delta_contents (map (\<lambda>j. SseData (word_chunk clock sel words j)) [0..<n]))
     = join CHR '' '' (take n words)"
proof (induction n)
  case 0
  show ?case by simp
next
  case (Suc n)
  then have lt: "n < length words - 1" and le: "n \<le> length words - 1" by simp_all
  have t: "take (Suc n) words = take n words @ [words ! n]"
    using lt by (simp add: take_Suc_conv_app_nth)
  have j: "join CHR '' '' (take n words @ [words ! n]) =
        join CHR '' '' (take n words) @ (if n = 0 then words ! n else '' '' @ words ! n)"
    using lt by (auto simp: join_snoc)
  show ?case
    using Suc.IH[OF le] lt
    by (simp add: delta_contents_append t j word_chunk_def Let_def)
qed

section \<open>Properties of the handlers\<close>

text \<open>
  The condition on \<^verbatim>\<open>messages\<close> holds exactly when the field is missing, is not an
  array, or is the empty array.
\<close>

lemma invalid_messages_iff:
  "invalid_messages m \<longleftrightarrow> m = None \<or> \<not> Array_isArray m \<or> m = Some (JArr [])"
  by (cases m rule: Array_isArray.cases) (auto simp: invalid_messages_def)

lemma chat_completions_call:
  "call \<in> set (calls (chat_completions e fetch clock req)) \<Longrightarrow>
   has_token e \<and> \<not> invalid_messages (req_messages req)
   \<and> call = fetch_call_of e (requestBody (selectedModel e (req_model req)) req)
   \<and> calls (chat_completions e fetch clock req) = [call]"
  by (auto simp: chat_completions_def Let_def split: if_splits)

lemma chat_completions_reply:
  "has_token e \<Longrightarrow> \<not> invalid_messages (req_messages req) \<Longrightarrow>
   reply (chat_completions e fetch clock req) =
     outer_catch e
       (after_fetch e clock (selectedModel e (req_model req)) req
          (fetch (fetch_call_of e (requestBody (selectedModel e (req_model req)) req))))"
  by (simp add: chat_completions_def Let_def)




lemma res_status_json_sent:
  "206 \<le> status \<or> status \<in> {200, 201, 202, 203} \<Longrightarrow> status \<le> 999 \<Longrightarrow> status \<noteq> 304 \<Longrightarrow>
   res_status_json status body = Inr (JsonReply status (JSON_stringify body))"
  by (auto simp: res_status_json_def send_json_def)

lemma unauthorized_reply:
  "outer_catch e (res_status_json 401 unauthorized_body) = JsonReply 401 unauthorized_body"
  by (simp add: outer_catch_def res_status_json_sent unauthorized_body_def)

lemma server_unauthorized_reply:
  "outer_catch e (res_status_json 401 server_unauthorized_body) =
     JsonReply 401 server_unauthorized_body"
  by (simp add: outer_catch_def res_status_json_sent server_unauthorized_body_def)

lemma invalid_request_reply:
  "outer_catch e (res_status_json 400 invalid_request_body) = JsonReply 400 invalid_request_body"
  by (simp add: outer_catch_def res_status_json_sent invalid_request_body_def)

lemma relay_ended: "ended res \<Longrightarrow> relay events res = res"
  by (induction events res rule: relay.induct) (simp_all add: res_write_def res_end_def)

lemma relay_data:
  "\<not> ended res \<Longrightarrow>
   relay (map EvData chunks @ events) res =
     relay events (res\<lparr>written := written res @ map Raw chunks\<rparr>)"
  by (induction chunks arbitrary: res) (simp_all add: res_write_def)

section \<open>The credential and the message sequence\<close>

text \<open>
  C8: a request handled while no upstream credential is configured is answered with
  status 401, and no call to the upstream provider is made: the outcome does not depend
  on the network, and its list of calls is empty. This holds for both servers.
\<close>

theorem no_credential_unauthorized:
  "\<not> has_token e \<Longrightarrow>
   chat_completions e fetch clock req = \<lparr> calls = [], reply = JsonReply 401 unauthorized_body \<rparr>
   \<and> server_chat_completions e fetch req =
       \<lparr> calls = [], reply = JsonReply 401 server_unauthorized_body \<rparr>"
  by (simp add: chat_completions_def server_chat_completions_def unauthorized_reply
      server_unauthorized_reply)

theorem no_credential_unauthorized_witness:
  "\<not> has_token unconfigured_env
   \<and> chat_completions unconfigured_env unreachable example_clock hi_there =
       \<lparr> calls = [], reply = JsonReply 401 unauthorized_body \<rparr>
   \<and> server_chat_completions unconfigured_env unreachable hi_there =
       \<lparr> calls = [], reply = JsonReply 401 server_unauthorized_body \<rparr>"
proof -
  have h: "\<not> has_token unconfigured_env"
    by (simp add: has_token_def unconfigured_env_def)
  show ?thesis
    using h no_credential_unauthorized [OF h, of unreachable example_clock hi_there] by simp
qed

text \<open>
  C10: the credential check comes before the check of \<^verbatim>\<open>messages\<close>: a request whose
  \<^verbatim>\<open>messages\<close> is missing, not an array or empty, handled while no credential is
  configured, is answered with status 401 and not with status 400.
\<close>

theorem credential_check_before_messages_check:
  "\<not> has_token e \<Longrightarrow> invalid_messages (req_messages req) \<Longrightarrow>
   reply (chat_completions e fetch clock req) = JsonReply 401 unauthorized_body
   \<and> reply (chat_completions e fetch clock req) \<noteq> JsonReply 400 invalid_request_body"
  by (simp add: chat_completions_def unauthorized_reply)

theorem credential_check_before_messages_check_witness:
  "\<not> has_token unconfigured_env \<and> invalid_messages (req_messages no_messages)
   \<and> reply (chat_completions unconfigured_env unreachable example_clock no_messages)
       = JsonReply 401 unauthorized_body
   \<and> reply (chat_completions unconfigured_env unreachable example_clock no_messages)
       \<noteq> JsonReply 400 invalid_request_body"
proof -
  have h: "\<not> has_token unconfigured_env"
    by (simp add: has_token_def unconfigured_env_def)
  have m: "invalid_messages (req_messages no_messages)"
    by (simp add: invalid_messages_def no_messages_def empty_body_def)
  show ?thesis
    using h m credential_check_before_messages_check [OF h m, of unreachable example_clock]
    by simp
qed

text \<open>
  C7, as stated, fails without a credential: the request with no \<^verbatim>\<open>messages\<close> at all
  is then answered with status 401.
\<close>

theorem missing_messages_without_credential:
  "invalid_messages (req_messages empty_body)
   \<and> reply (chat_completions unconfigured_env unreachable example_clock empty_body)
       = JsonReply 401 unauthorized_body
   \<and> reply (chat_completions unconfigured_env unreachable example_clock empty_body)
       \<noteq> JsonReply 400 invalid_request_body"
  by (simp add: chat_completions_def has_token_def unconfigured_env_def invalid_messages_def
      empty_body_def unauthorized_reply)

text \<open>
  C7, amended: a request whose \<^verbatim>\<open>messages\<close> is missing, not an array or empty never
  leads to a call to the upstream provider, and while a credential is configured it is
  answered with status 400.
\<close>

theorem invalid_messages_rejected:
  "invalid_messages (req_messages req) \<Longrightarrow>
   calls (chat_completions e fetch clock req) = []
   \<and> (has_token e \<longrightarrow>
        reply (chat_completions e fetch clock req) = JsonReply 400 invalid_request_body)"
  by (simp add: chat_completions_def invalid_request_reply)

theorem invalid_messages_rejected_witness:
  "invalid_messages (req_messages no_messages) \<and> has_token configured_env
   \<and> calls (chat_completions configured_env unreachable example_clock no_messages) = []
   \<and> reply (chat_completions configured_env unreachable example_clock no_messages)
       = JsonReply 400 invalid_request_body"
proof -
  have m: "invalid_messages (req_messages no_messages)"
    by (simp add: invalid_messages_def no_messages_def empty_body_def)
  have h: "has_token configured_env"
    by (simp add: has_token_def configured_env_def)
  show ?thesis
    using h m invalid_messages_rejected [OF m, of configured_env unreachable example_clock]
    by simp
qed

section \<open>Upstream replies\<close>

text \<open>
  C4, as stated, fails at the status 304: it is not in 200..299, so the handler calls
  \<^verbatim>\<open>res.status(304).json(...)\<close>, and a response with status 304 is sent without its
  body. The client receives the status and no \<^verbatim>\<open>{error, details, status}\<close> body.
\<close>

theorem not_modified_sent_without_body:
  "\<not> ok not_modified
   \<and> up_status not_modified = 304
   \<and> up_text not_modified = Inr []
   \<and> reply (chat_completions configured_env (replying not_modified) example_clock hi_there)
       = EmptyReply 304
   \<and> reply (chat_completions configured_env (replying not_modified) example_clock hi_there)
       \<noteq> JsonReply 304
           (JObj [(''error'', JStr ''Error desde Hugging Face''),
                  (''details'', JStr []),
                  (''status'', JNum 304)])"
  by (simp add: chat_completions_def has_token_def configured_env_def invalid_messages_def
      hi_there_def empty_body_def Let_def replying_def not_modified_def ok_def after_fetch_def
      outer_catch_def res_status_json_def send_json_def)

text \<open>
  C4, amended: when the upstream call returns a status \<open>S\<close> outside 200..299 and other
  than 304, among the statuses 200..999 that a final HTTP response can have, with raw
  body \<open>B\<close>, the client receives status \<open>S\<close> and the body
  \<^verbatim>\<open>{error: "Error desde Hugging Face", details: B, status: S}\<close>, where \<open>B\<close> is the text of the
  upstream body as it came; that call is the only one made for the request.
\<close>

theorem upstream_failure_forwarded:
  assumes "call \<in> set (calls (chat_completions e fetch clock req))"
    and "fetch call = Inr response"
    and "\<not> ok response"
    and "200 \<le> up_status response"
    and "up_status response \<le> 999"
    and "up_status response \<noteq> 304"
    and "up_text response = Inr B"
  shows "reply (chat_completions e fetch clock req) =
           JsonReply (up_status response)
             (JObj [(''error'', JStr ''Error desde Hugging Face''),
                    (''details'', JStr B),
                    (''status'', JNum (real (up_status response)))])
         \<and> calls (chat_completions e fetch clock req) = [call]"
proof -
  from chat_completions_call[OF assms(1)]
  have t: "has_token e" and m: "\<not> invalid_messages (req_messages req)"
    and c: "call = fetch_call_of e (requestBody (selectedModel e (req_model req)) req)"
    and cs: "calls (chat_completions e fetch clock req) = [call]"
    by simp_all
  from assms(2) c
  have f: "fetch (fetch_call_of e (requestBody (selectedModel e (req_model req)) req)) = Inr response"
    by simp
  have n: "206 \<le> up_status response \<or> up_status response \<in> {200, 201, 202, 203}"
    using assms(3,4) by (auto simp: ok_def)
  have "after_fetch e clock (selectedModel e (req_model req)) req (Inr response) =
        Inr (JsonReply (up_status response)
               (JSON_stringify (upstream_failure_body (up_status response) B)))"
    using assms(3,7) by (simp add: after_fetch_def res_status_json_sent[OF n assms(5,6)])
  then show ?thesis
    using cs
    by (simp add: chat_completions_reply[where fetch=fetch, OF t m] f outer_catch_def
        upstream_failure_body_def)
qed

theorem upstream_failure_forwarded_witness:
  "fetch_call_of configured_env (requestBody (selectedModel configured_env (req_model hi_there)) hi_there)
     \<in> set (calls (chat_completions configured_env (replying rate_limited) example_clock hi_there))
   \<and> \<not> ok rate_limited
   \<and> 200 \<le> up_status rate_limited \<and> up_status rate_limited \<le> 999
   \<and> up_status rate_limited \<noteq> 304
   \<and> reply (chat_completions configured_env (replying rate_limited) example_clock hi_there) =
       JsonReply 429
         (JObj [(''error'', JStr ''Error desde Hugging Face''),
                (''details'', JStr ''Too Many Requests''),
                (''status'', JNum 429)])
   \<and> length (calls (chat_completions configured_env (replying rate_limited) example_clock hi_there)) = 1"
proof -
  let ?call = "fetch_call_of configured_env
                 (requestBody (selectedModel configured_env (req_model hi_there)) hi_there)"
  have t: "has_token configured_env" by (simp add: has_token_def configured_env_def)
  have m: "\<not> invalid_messages (req_messages hi_there)"
    by (simp add: invalid_messages_def hi_there_def empty_body_def)
  have a: "?call \<in> set (calls (chat_completions configured_env (replying rate_limited)
                               example_clock hi_there))"
    using t m by (simp add: chat_completions_def Let_def)
  have b: "replying rate_limited ?call = Inr rate_limited" by (simp add: replying_def)
  have c: "\<not> ok rate_limited" by (simp add: ok_def rate_limited_def)
  have d: "up_text rate_limited = Inr ''Too Many Requests''" by (simp add: rate_limited_def)
  have s: "up_status rate_limited = 429" by (simp add: rate_limited_def)
  have r: "200 \<le> up_status rate_limited" "up_status rate_limited \<le> 999"
    "up_status rate_limited \<noteq> 304"
    by (simp_all add: s)
  show ?thesis
    using a c r upstream_failure_forwarded [OF a b c r d] by (simp add: s)
qed




section \<open>The outbound request\<close>

text \<open>
  The three cases of the model: absent, an alias, and a string that is neither an own
  nor an inherited property name of the table.
\<close>

lemma selectedModel_default: "selectedModel e None = ModelString (DEFAULT_MODEL e)"
  by (simp add: selectedModel_def)

lemma selectedModel_alias:
  "map_of AVAILABLE_MODELS m = Some v \<Longrightarrow> selectedModel e (Some m) = ModelString v"
  by (auto simp: selectedModel_def AVAILABLE_MODELS_get_def AVAILABLE_MODELS_def split: if_splits)

lemma selectedModel_unknown:
  "m \<noteq> [] \<Longrightarrow> map_of AVAILABLE_MODELS m = None \<Longrightarrow> m \<notin> set Object_prototype \<Longrightarrow>
   selectedModel e (Some m) = ModelString m"
  by (simp add: selectedModel_def AVAILABLE_MODELS_get_def)

text \<open>
  A model that names a member of \<^verbatim>\<open>Object.prototype\<close> is not an alias, yet the
  property read finds the inherited member, which is truthy, and \<^verbatim>\<open>selectedModel\<close>
  becomes that member instead of the string.
\<close>

lemma selectedModel_inherited:
  "m \<in> set Object_prototype \<Longrightarrow> selectedModel e (Some m) = ModelInherited m"
  by (auto simp: selectedModel_def AVAILABLE_MODELS_get_def AVAILABLE_MODELS_def Object_prototype_def)

text \<open>
  C5: the outbound model is the table's value for an alias, the input string for any
  other non-empty string, and the configured default when the model is omitted. The
  handler run on the request \<^verbatim>\<open>{messages: [...], model: "toString"}\<close>: \<^verbatim>\<open>toString\<close>
  is not a key of the table, one call is made, and its model is the inherited member of
  \<^verbatim>\<open>Object.prototype\<close>, not the string \<^verbatim>\<open>"toString"\<close>.
\<close>

theorem inherited_property_taken_as_model:
  "hi_there_toString = hi_there\<lparr>req_model := Some ''toString''\<rparr>
   \<and> map_of AVAILABLE_MODELS ''toString'' = None
   \<and> length (calls (chat_completions configured_env unreachable example_clock hi_there_toString)) = 1
   \<and> rb_model (fc_body (hd (calls
        (chat_completions configured_env unreachable example_clock hi_there_toString))))
       = ModelInherited ''toString''
   \<and> rb_model (fc_body (hd (calls
        (chat_completions configured_env unreachable example_clock hi_there_toString))))
       \<noteq> ModelString ''toString''"
  by (simp add: chat_completions_def has_token_def configured_env_def invalid_messages_def
      hi_there_toString_def hi_there_def empty_body_def Let_def fetch_call_of_def requestBody_def
      selectedModel_def AVAILABLE_MODELS_get_def AVAILABLE_MODELS_def Object_prototype_def)

text \<open>
  C6: in the body of every outbound call, \<^verbatim>\<open>temperature\<close> is 0.7 when the request
  has none and \<^verbatim>\<open>max_tokens\<close> is 1000 when the request has none; each of
  \<^verbatim>\<open>top_p\<close>, \<^verbatim>\<open>frequency_penalty\<close> and \<^verbatim>\<open>presence_penalty\<close> is present exactly
  when the request's value is present and truthy, and is then that value; so a value of
  0 is left out as an absent one is.
\<close>

theorem outbound_sampling_parameters:
  assumes "call \<in> set (calls (chat_completions e fetch clock req))"
  shows "(req_temperature req = None \<longrightarrow> rb_temperature (fc_body call) = JNum 0.7)
       \<and> (req_max_tokens req = None \<longrightarrow> rb_max_tokens (fc_body call) = JNum 1000)
       \<and> rb_top_p (fc_body call) = (if truthy_opt (req_top_p req) then req_top_p req else None)
       \<and> rb_frequency_penalty (fc_body call) =
           (if truthy_opt (req_frequency_penalty req) then req_frequency_penalty req else None)
       \<and> rb_presence_penalty (fc_body call) =
           (if truthy_opt (req_presence_penalty req) then req_presence_penalty req else None)
       \<and> (req_top_p req = Some (JNum 0) \<longrightarrow> rb_top_p (fc_body call) = None)
       \<and> (req_frequency_penalty req = Some (JNum 0) \<longrightarrow> rb_frequency_penalty (fc_body call) = None)
       \<and> (req_presence_penalty req = Some (JNum 0) \<longrightarrow> rb_presence_penalty (fc_body call) = None)"
proof -
  from chat_completions_call[OF assms]
  have c: "call = fetch_call_of e (requestBody (selectedModel e (req_model req)) req)"
    by simp
  show ?thesis
    unfolding c
    by (auto simp: fetch_call_of_def requestBody_def or_default_def spread_if_truthy_def
        split: option.splits)
qed

theorem outbound_sampling_parameters_witness:
  "fetch_call_of configured_env
     (requestBody (selectedModel configured_env (req_model hi_there_sampling)) hi_there_sampling)
     \<in> set (calls (chat_completions configured_env unreachable example_clock hi_there_sampling))
   \<and> req_temperature hi_there_sampling = None \<and> req_max_tokens hi_there_sampling = None
   \<and> req_top_p hi_there_sampling = Some (JNum 0)
   \<and> req_frequency_penalty hi_there_sampling = Some (JNum 0.5)
   \<and> req_presence_penalty hi_there_sampling = None
   \<and> rb_temperature (requestBody (selectedModel configured_env (req_model hi_there_sampling))
         hi_there_sampling) = JNum 0.7
   \<and> rb_max_tokens (requestBody (selectedModel configured_env (req_model hi_there_sampling))
         hi_there_sampling) = JNum 1000
   \<and> rb_top_p (requestBody (selectedModel configured_env (req_model hi_there_sampling))
         hi_there_sampling) = None
   \<and> rb_frequency_penalty (requestBody (selectedModel configured_env (req_model hi_there_sampling))
         hi_there_sampling) = Some (JNum 0.5)
   \<and> rb_presence_penalty (requestBody (selectedModel configured_env (req_model hi_there_sampling))
         hi_there_sampling) = None"
proof -
  let ?body = "requestBody (selectedModel configured_env (req_model hi_there_sampling))
                 hi_there_sampling"
  let ?call = "fetch_call_of configured_env ?body"
  have t: "has_token configured_env" by (simp add: has_token_def configured_env_def)
  have m: "\<not> invalid_messages (req_messages hi_there_sampling)"
    by (simp add: invalid_messages_def hi_there_sampling_def hi_there_def empty_body_def)
  have a: "?call \<in> set (calls (chat_completions configured_env unreachable example_clock
                               hi_there_sampling))"
    using t m by (simp add: chat_completions_def Let_def)
  have f: "req_temperature hi_there_sampling = None" "req_max_tokens hi_there_sampling = None"
    "req_top_p hi_there_sampling = Some (JNum 0)"
    "req_frequency_penalty hi_there_sampling = Some (JNum 0.5)"
    "req_presence_penalty hi_there_sampling = None"
    by (simp_all add: hi_there_sampling_def hi_there_def empty_body_def)
  have b: "fc_body ?call = ?body" by (simp add: fetch_call_of_def)
  show ?thesis
    using a outbound_sampling_parameters [OF a] unfolding b by (simp add: f)
qed

section \<open>Pass-through streaming of a live upstream body\<close>

text \<open>
  C9: when the upstream reply is a live stream that emits some chunks and then an
  error, the client receives exactly those chunks, unchanged and in their order of
  arrival, and the connection is ended; nothing else is written, so the relay adds no
  \<^verbatim>\<open>data: [DONE]\<close> record, and what the stream emits after the error is not sent.
\<close>

theorem pass_through_error_closes_without_sentinel:
  assumes "call \<in> set (calls (chat_completions e fetch clock req))"
    and "fetch call = Inr response"
    and "ok response"
    and "truthy_opt (req_stream req)"
    and "is_live_stream response"
    and "up_body response = map EvData chunks @ EvError err # later"
  shows "reply (chat_completions e fetch clock req) =
           StreamReply stream_headers \<lparr> written = map Raw chunks, ended = True \<rparr>"
proof -
  from chat_completions_call[OF assms(1)]
  have t: "has_token e" and m: "\<not> invalid_messages (req_messages req)"
    and c: "call = fetch_call_of e (requestBody (selectedModel e (req_model req)) req)"
    by simp_all
  from assms(2) c
  have f: "fetch (fetch_call_of e (requestBody (selectedModel e (req_model req)) req)) = Inr response"
    by simp
  have "relay (up_body response) open_sink = \<lparr> written = map Raw chunks, ended = True \<rparr>"
    unfolding assms(6)
    by (simp add: relay_data open_sink_def relay_ended res_end_def)
  then show ?thesis
    using assms(3,4,5)
    by (simp add: chat_completions_reply[where fetch=fetch, OF t m] f after_fetch_def
        outer_catch_def streaming_def)
qed

theorem pass_through_error_closes_without_sentinel_witness:
  "fetch_call_of configured_env
     (requestBody (selectedModel configured_env (req_model hi_there_stream)) hi_there_stream)
     \<in> set (calls (chat_completions configured_env (replying broken_live_stream) example_clock
                    hi_there_stream))
   \<and> ok broken_live_stream \<and> truthy_opt (req_stream hi_there_stream)
   \<and> is_live_stream broken_live_stream
   \<and> up_body broken_live_stream =
       map EvData [''data: {a}'', ''data: {b}''] @ EvError (BodyError ''aborted'') # []
   \<and> reply (chat_completions configured_env (replying broken_live_stream) example_clock
              hi_there_stream) =
       StreamReply stream_headers
         \<lparr> written = [Raw ''data: {a}'', Raw ''data: {b}''], ended = True \<rparr>"
proof -
  let ?call = "fetch_call_of configured_env
     (requestBody (selectedModel configured_env (req_model hi_there_stream)) hi_there_stream)"
  have t: "has_token configured_env" by (simp add: has_token_def configured_env_def)
  have m: "\<not> invalid_messages (req_messages hi_there_stream)"
    by (simp add: invalid_messages_def hi_there_stream_def hi_there_def empty_body_def)
  have a: "?call \<in> set (calls (chat_completions configured_env (replying broken_live_stream)
                               example_clock hi_there_stream))"
    using t m by (simp add: chat_completions_def Let_def)
  have b: "replying broken_live_stream ?call = Inr broken_live_stream" by (simp add: replying_def)
  have c: "ok broken_live_stream" by (simp add: ok_def broken_live_stream_def)
  have s: "truthy_opt (req_stream hi_there_stream)" by (simp add: hi_there_stream_def)
  have l: "is_live_stream broken_live_stream"
    by (simp add: is_live_stream_def contentType_def broken_live_stream_def)
  have u: "up_body broken_live_stream =
       map EvData [''data: {a}'', ''data: {b}''] @ EvError (BodyError ''aborted'') # []"
    by (simp add: broken_live_stream_def)
  show ?thesis
    using a c s l u pass_through_error_closes_without_sentinel [OF a b c s l u] by simp
qed

section \<open>Simulated streaming of a complete upstream body\<close>

text \<open>
  Without its last piece, a non-empty text split at the spaces and joined again is
  shorter than the text.
\<close>

lemma join_butlast_shorter:
  assumes "ws \<noteq> []" "join sep ws \<noteq> []"
  shows "length (join sep (butlast ws)) < length (join sep ws)"
proof -
  have ws: "ws = butlast ws @ [last ws]" using assms(1) by simp
  show ?thesis
  proof (cases "butlast ws = []")
    case True
    then show ?thesis using assms(2) by simp
  next
    case False
    have "join sep ws = join sep (butlast ws) @ sep # last ws"
      by (subst ws) (simp add: join_snoc False)
    then show ?thesis by simp
  qed
qed

lemma last_word_never_emitted:
  assumes "s \<noteq> []"
  shows "join CHR '' '' (butlast (split CHR '' '' s)) \<noteq> s"
proof -
  have "length (join CHR '' '' (butlast (split CHR '' '' s))) < length (join CHR '' '' (split CHR '' '' s))"
    using assms by (intro join_butlast_shorter) (simp_all add: split_not_Nil join_split)
  then show ?thesis by (auto simp: join_split)
qed

text \<open>
  The content chunks of a simulated stream concatenate to the words without the last
  one: the iteration of the last word writes the terminal chunk, whose
  \<^verbatim>\<open>delta\<close> is empty, so that word is never sent, although \<^verbatim>\<open>accumulatedContent\<close>
  collects it (\<open>accumulatedContent_complete\<close>).
\<close>

lemma simulated_contents:
  assumes "simulated_words response = Inr words"
  shows "concat (delta_contents (written (simulated_streaming e clock sel response open_sink)))
         = join CHR '' '' (butlast words)"
proof -
  have ne: "words \<noteq> []" using assms by (rule simulated_words_not_Nil)
  have "delta_contents [SseData (word_chunk clock sel words (length words - 1)), DONE] = []"
    using word_chunk_last[of clock sel words] by (simp add: DONE_def)
  then show ?thesis
    by (simp add: simulated_streaming_success[OF assms ne] delta_contents_append
        delta_contents_prefix butlast_conv_take)
qed

text \<open>
  C1: the content chunks of a simulated stream concatenate to the answer text, and the
  upstream body \<^verbatim>\<open>{choices:[{message:{content:"Hello friend"}}]}\<close> yields the two
  content chunks \<^verbatim>\<open>"Hello"\<close> and \<^verbatim>\<open>" friend"\<close>, the terminal chunk and the
  \<^verbatim>\<open>[DONE]\<close> record. The handler run on that scenario writes one content chunk,
  \<^verbatim>\<open>"Hello"\<close>, then the terminal chunk, then the \<^verbatim>\<open>[DONE]\<close> record: the word
  \<^verbatim>\<open>friend\<close> is not sent.
\<close>

theorem hello_friend_last_word_not_emitted:
  "emitted (reply (chat_completions configured_env
      (replying (json_response 200 hello_friend_text hello_friend)) example_clock hi_there_stream))
     = [SseData \<lparr> chunk_id = SimulatedId 5000 0, chunk_object = ''chat.completion.chunk'',
                  chunk_created = 5,
                  chunk_model = ModelString ''meta-llama/Llama-3.1-8B-Instruct:fireworks-ai'',
                  choice_index = 0, delta = Some ''Hello'', finish_reason = None \<rparr>,
        SseData \<lparr> chunk_id = SimulatedId 5160 1, chunk_object = ''chat.completion.chunk'',
                  chunk_created = 5,
                  chunk_model = ModelString ''meta-llama/Llama-3.1-8B-Instruct:fireworks-ai'',
                  choice_index = 0, delta = None, finish_reason = Some ''stop'' \<rparr>,
        DONE]
   \<and> delta_contents (emitted (reply (chat_completions configured_env
        (replying (json_response 200 hello_friend_text hello_friend)) example_clock hi_there_stream)))
       = [''Hello'']
   \<and> delta_contents (emitted (reply (chat_completions configured_env
        (replying (json_response 200 hello_friend_text hello_friend)) example_clock hi_there_stream)))
       \<noteq> [''Hello'', '' friend'']"
proof -
  let ?r = "json_response 200 hello_friend_text hello_friend"
  have w: "simulated_words ?r = Inr [''Hello'', ''friend'']"
    by (simp add: simulated_words_def json_response_def hello_friend_def extract_content_def
        or_default_def split_content_def)
  have l: "\<not> is_live_stream ?r"
    by (simp add: is_live_stream_def contentType_def json_response_def)
  have "reply (chat_completions configured_env (replying ?r) example_clock hi_there_stream)
        = StreamReply stream_headers
            (simulated_streaming configured_env example_clock
               (ModelString ''meta-llama/Llama-3.1-8B-Instruct:fireworks-ai'') ?r open_sink)"
    using l
    by (simp add: chat_completions_def has_token_def configured_env_def invalid_messages_def
        hi_there_stream_def hi_there_def empty_body_def Let_def replying_def ok_def
        streaming_def selectedModel_def DEFAULT_MODEL_def after_fetch_def outer_catch_def)
       (simp add: json_response_def)
  then have e: "emitted (reply (chat_completions configured_env (replying ?r) example_clock
                  hi_there_stream))
        = written (simulated_streaming configured_env example_clock
               (ModelString ''meta-llama/Llama-3.1-8B-Instruct:fireworks-ai'') ?r open_sink)"
    by (simp add: emitted_def)
  show ?thesis
    unfolding e
    by (simp add: simulated_streaming_success[OF w] word_chunk_def Let_def example_clock_def
        DONE_def)
qed

text \<open>
  The faults of the extraction: a body with no \<^verbatim>\<open>choices\<close>, a body whose \<^verbatim>\<open>choices\<close>
  is \<^verbatim>\<open>null\<close>, a \<^verbatim>\<open>null\<close> body and a content that is not a string each throw their
  own error, and the chunk of the \<^verbatim>\<open>catch\<close> block carries the message of the one thrown.
\<close>

lemma simulated_words_faults:
  "simulated_words (json_response 200 text choices_missing)
     = Inl (RuntimeError (ReadPropertyOfUndefined ''0''))"
  "simulated_words (json_response 200 text choices_null)
     = Inl (RuntimeError (ReadPropertyOfNull ''0''))"
  "simulated_words (json_response 200 text JNull)
     = Inl (RuntimeError (ReadPropertyOfNull ''choices''))"
  "simulated_words (json_response 200 text
       (JObj [(''choices'', JArr [JObj [(''message'', JObj [(''content'', JNum 7)])]])]))
     = Inl (RuntimeError (NotAFunction ''content.split''))"
  by (simp_all add: simulated_words_def json_response_def extract_content_def split_content_def
      choices_missing_def choices_null_def or_default_def)

lemma hi_there_stream_reply_fault:
  assumes "simulated_words (json_response 200 [] data) = Inl err"
  shows "emitted (hi_there_stream_reply data) =
     [SseData \<lparr> chunk_id = ErrorId 5000, chunk_object = ''chat.completion.chunk'',
                 chunk_created = 5,
                 chunk_model = ModelString ''meta-llama/Llama-3.1-8B-Instruct:fireworks-ai'',
                 choice_index = 0,
                 delta = Some (''Error: '' @ message configured_env err),
                 finish_reason = Some ''error'' \<rparr>,
      DONE]"
proof -
  let ?r = "json_response 200 [] data"
  have l: "\<not> is_live_stream ?r"
    by (simp add: is_live_stream_def contentType_def json_response_def)
  have "hi_there_stream_reply data
        = StreamReply stream_headers
            (simulated_streaming configured_env example_clock
               (ModelString ''meta-llama/Llama-3.1-8B-Instruct:fireworks-ai'') ?r open_sink)"
    using l
    by (simp add: hi_there_stream_reply_def chat_completions_def has_token_def configured_env_def
        invalid_messages_def hi_there_stream_def hi_there_def empty_body_def Let_def replying_def
        ok_def streaming_def selectedModel_def DEFAULT_MODEL_def after_fetch_def outer_catch_def)
       (simp add: json_response_def)
  then show ?thesis
    by (simp add: emitted_def simulated_streaming_fault[OF assms] errorChunk_def example_clock_def)
qed

lemma error_chunk_messages:
  "terminal_deltas (emitted (hi_there_stream_reply choices_missing)) =
     [Some (''Error: Cannot read properties of undefined (reading ''
            @ [CHR 0x27] @ ''0'' @ [CHR 0x27] @ '')'')]"
  "terminal_deltas (emitted (hi_there_stream_reply choices_null)) =
     [Some (''Error: Cannot read properties of null (reading ''
            @ [CHR 0x27] @ ''0'' @ [CHR 0x27] @ '')'')]"
  "terminal_deltas (emitted (hi_there_stream_reply JNull)) =
     [Some (''Error: Cannot read properties of null (reading ''
            @ [CHR 0x27] @ ''choices'' @ [CHR 0x27] @ '')'')]"
  by (simp_all add: hi_there_stream_reply_fault[OF simulated_words_faults(1)]
      hi_there_stream_reply_fault[OF simulated_words_faults(2)]
      hi_there_stream_reply_fault[OF simulated_words_faults(3)]
      DONE_def message_def configured_env_def)

text \<open>
  C2: when streaming is requested and the upstream reply has a status in 200..299 and
  is not a live stream, what is written ends with one chunk whose \<^verbatim>\<open>finish_reason\<close>
  is set, followed by the record \<^verbatim>\<open>data: [DONE]\<close>, after which the connection is
  ended; no other written item has a \<^verbatim>\<open>finish_reason\<close>. That chunk has
  \<^verbatim>\<open>finish_reason\<close> \<^verbatim>\<open>"stop"\<close> and an empty \<^verbatim>\<open>delta\<close> when the words could be
  extracted, and \<^verbatim>\<open>finish_reason\<close> \<^verbatim>\<open>"error"\<close> with the message of the fault in
  \<^verbatim>\<open>delta.content\<close> otherwise.
\<close>

theorem simulated_stream_one_terminal_then_DONE:
  assumes "call \<in> set (calls (chat_completions e fetch clock req))"
    and "fetch call = Inr response"
    and "ok response"
    and "truthy_opt (req_stream req)"
    and "\<not> is_live_stream response"
  shows "\<exists>pre t.
           reply (chat_completions e fetch clock req) =
             StreamReply stream_headers \<lparr> written = pre @ [SseData t, DONE], ended = True \<rparr>
           \<and> filter is_terminal (pre @ [SseData t, DONE]) = [SseData t]
           \<and> DONE \<notin> set pre
           \<and> (case simulated_words response of
                 Inr words \<Rightarrow> finish_reason t = Some ''stop'' \<and> delta t = None
               | Inl err \<Rightarrow> finish_reason t = Some ''error''
                            \<and> delta t = Some (''Error: '' @ message e err))"
proof -
  from chat_completions_call[OF assms(1)]
  have t: "has_token e" and m: "\<not> invalid_messages (req_messages req)"
    and c: "call = fetch_call_of e (requestBody (selectedModel e (req_model req)) req)"
    by simp_all
  from assms(2) c
  have f: "fetch (fetch_call_of e (requestBody (selectedModel e (req_model req)) req)) = Inr response"
    by simp
  let ?sel = "selectedModel e (req_model req)"
  have r: "reply (chat_completions e fetch clock req) =
        StreamReply stream_headers (simulated_streaming e clock ?sel response open_sink)"
    using assms(3,4,5)
    by (simp add: chat_completions_reply[where fetch=fetch, OF t m] f after_fetch_def
        outer_catch_def streaming_def)
  show ?thesis
  proof (cases "simulated_words response")
    case (Inr words)
    then have ne: "words \<noteq> []" by (rule simulated_words_not_Nil)
    let ?pre = "map (\<lambda>j. SseData (word_chunk clock ?sel words j)) [0..<length words - 1]"
    let ?t = "word_chunk clock ?sel words (length words - 1)"
    have 1: "reply (chat_completions e fetch clock req) =
             StreamReply stream_headers \<lparr> written = ?pre @ [SseData ?t, DONE], ended = True \<rparr>"
      by (simp add: r simulated_streaming_success[OF Inr ne])
    have 2: "filter is_terminal (?pre @ [SseData ?t, DONE]) = [SseData ?t]"
      using filter_terminal_prefix[of clock ?sel words] word_chunk_last[of clock ?sel words]
      by (simp add: DONE_def)
    have 3: "DONE \<notin> set ?pre" by (auto simp: DONE_def)
    have 4: "finish_reason ?t = Some ''stop'' \<and> delta ?t = None" by (rule word_chunk_last)
    show ?thesis
      using 1 2 3 4 Inr by (intro exI[of _ ?pre] exI[of _ ?t]) simp
  next
    case (Inl err)
    let ?t = "errorChunk e clock ?sel err"
    have 1: "reply (chat_completions e fetch clock req) =
             StreamReply stream_headers \<lparr> written = [] @ [SseData ?t, DONE], ended = True \<rparr>"
      by (simp add: r simulated_streaming_fault[OF Inl])
    have 2: "filter is_terminal ([] @ [SseData ?t, DONE]) = [SseData ?t]"
      by (simp add: errorChunk_def DONE_def)
    have 4: "finish_reason ?t = Some ''error'' \<and> delta ?t = Some (''Error: '' @ message e err)"
      by (simp add: errorChunk_def)
    show ?thesis
      using 1 2 4 Inl by (intro exI[of _ "[]"] exI[of _ ?t]) simp
  qed
qed

theorem simulated_stream_one_terminal_then_DONE_witness:
  "fetch_call_of configured_env
     (requestBody (selectedModel configured_env (req_model hi_there_stream)) hi_there_stream)
     \<in> set (calls (chat_completions configured_env
                    (replying (json_response 200 hello_friend_text hello_friend)) example_clock
                    hi_there_stream))
   \<and> ok (json_response 200 hello_friend_text hello_friend)
   \<and> truthy_opt (req_stream hi_there_stream)
   \<and> \<not> is_live_stream (json_response 200 hello_friend_text hello_friend)
   \<and> simulated_words (json_response 200 hello_friend_text hello_friend) = Inr [''Hello'', ''friend'']
   \<and> (\<exists>pre t.
         reply (chat_completions configured_env
                  (replying (json_response 200 hello_friend_text hello_friend)) example_clock
                  hi_there_stream) =
           StreamReply stream_headers \<lparr> written = pre @ [SseData t, DONE], ended = True \<rparr>
         \<and> filter is_terminal (pre @ [SseData t, DONE]) = [SseData t]
         \<and> DONE \<notin> set pre
         \<and> finish_reason t = Some ''stop'' \<and> delta t = None)"
proof -
  let ?r = "json_response 200 hello_friend_text hello_friend"
  let ?call = "fetch_call_of configured_env
     (requestBody (selectedModel configured_env (req_model hi_there_stream)) hi_there_stream)"
  have t: "has_token configured_env" by (simp add: has_token_def configured_env_def)
  have m: "\<not> invalid_messages (req_messages hi_there_stream)"
    by (simp add: invalid_messages_def hi_there_stream_def hi_there_def empty_body_def)
  have a: "?call \<in> set (calls (chat_completions configured_env (replying ?r) example_clock
                               hi_there_stream))"
    using t m by (simp add: chat_completions_def Let_def)
  have b: "replying ?r ?call = Inr ?r" by (simp add: replying_def)
  have c: "ok ?r" by (simp add: ok_def json_response_def)
  have s: "truthy_opt (req_stream hi_there_stream)" by (simp add: hi_there_stream_def)
  have l: "\<not> is_live_stream ?r"
    by (simp add: is_live_stream_def contentType_def json_response_def)
  have w: "simulated_words ?r = Inr [''Hello'', ''friend'']"
    by (simp add: simulated_words_def json_response_def hello_friend_def extract_content_def
        or_default_def split_content_def)
  show ?thesis
    using a c s l w simulated_stream_one_terminal_then_DONE [OF a b c s l] by (simp add: w)
qed

end
